theory Spec2Isabelle
  imports Complex_Main "HOL-Library.AList" "HOL-Library.Multiset" "HOL-Library.Product_Lexorder"
    "HOL-Library.Word"
begin

section \<open>Python values, exceptions and dictionaries\<close>

text \<open>
  The exceptions that the modelled methods of \<^verbatim>\<open>replays/models.py\<close> can raise.
  A method that may raise returns \<open>error + 'a\<close>, with \<open>Inl\<close> for the exception.
\<close>

datatype error =
    KeyError
  | ValueError
  | TypeError
  | IndexError
  | AssertionError
  | AttributeError
  | OverflowError
  | DoesNotExist
  | MultipleObjectsReturned
  | NoReverseMatch
  | IntegrityError

text \<open>
  The keys of \<^verbatim>\<open>PLATFORMS_MAPPINGS\<close> are strings, integers and \<^verbatim>\<open>None\<close>; its values are
  integers (the canonical platform numbers) and strings (the names of the official API).
\<close>

datatype pykey = KNone | KInt int | KStr string

datatype pyval = VInt int | VStr string

text \<open>
  A dictionary display \<^verbatim>\<open>{k1: v1, k2: v2, ...}\<close> is kept as the list of its items in source
  order. Python fills the dictionary from left to right, so for a repeated key the last item
  wins; \<open>d[k]\<close> raises \<^verbatim>\<open>KeyError\<close> for a key that is not there.
\<close>

definition dict_display :: "('k \<times> 'v) list \<Rightarrow> ('k \<rightharpoonup> 'v)" where
  "dict_display items = map_of (rev items)"

definition getitem :: "('k \<times> 'v) list \<Rightarrow> 'k \<Rightarrow> error + 'v" where
  "getitem d k = (case dict_display d k of None \<Rightarrow> Inl KeyError | Some v \<Rightarrow> Inr v)"

text \<open>\<^verbatim>\<open>str(n)\<close> for an integer: its decimal digits, with a minus sign when negative.\<close>

definition digit_char :: "nat \<Rightarrow> char" where
  "digit_char d = ''0123456789'' ! d"

fun str_nat :: "nat \<Rightarrow> string" where
  "str_nat n = (if n < 10 then [digit_char n] else str_nat (n div 10) @ [digit_char (n mod 10)])"

declare str_nat.simps [simp del]

definition py_str :: "int \<Rightarrow> string" where
  "py_str i = (if i < 0 then CHR ''-'' # str_nat (nat (- i)) else str_nat (nat i))"

section \<open>The platform tables\<close>

definition PLATFORM_UNKNOWN :: int where "PLATFORM_UNKNOWN = 0"
definition PLATFORM_STEAM :: int where "PLATFORM_STEAM = 1"
definition PLATFORM_PSN :: int where "PLATFORM_PSN = 2"
definition PLATFORM_XBOX :: int where "PLATFORM_XBOX = 4"
definition PLATFORM_SWITCH :: int where "PLATFORM_SWITCH = 6"

definition PLATFORMS :: "(string \<times> int) list" where
  "PLATFORMS =
    [(''Unknown'', PLATFORM_UNKNOWN),
     (''Steam'', PLATFORM_STEAM),
     (''PlayStation'', PLATFORM_PSN),
     (''Xbox'', PLATFORM_XBOX),
     (''Switch'', PLATFORM_SWITCH)]"

definition PLATFORMS_MAPPINGS :: "(pykey \<times> pyval) list" where
  "PLATFORMS_MAPPINGS =
    [(KStr ''unknown'', VInt PLATFORM_UNKNOWN),
     (KStr ''steam'', VInt PLATFORM_STEAM),
     (KStr ''Steam'', VInt PLATFORM_STEAM),
     (KStr ''PlayStation'', VInt PLATFORM_PSN),
     (KStr ''playstation'', VInt PLATFORM_PSN),
     (KStr ''ps4'', VInt PLATFORM_PSN),
     (KStr ''Xbox'', VInt PLATFORM_XBOX),
     (KStr ''xbox'', VInt PLATFORM_XBOX),
     (KStr ''xboxone'', VInt PLATFORM_XBOX),
     (KStr ''switch'', VInt PLATFORM_SWITCH),
     (KStr ''Switch'', VInt PLATFORM_SWITCH),
     (KStr ''OnlinePlatform_PS4'', VInt PLATFORM_PSN),
     (KStr ''OnlinePlatform_Unknown'', VInt PLATFORM_UNKNOWN),
     (KStr ''OnlinePlatform_Dingo'', VInt PLATFORM_XBOX),
     (KStr ''OnlinePlatform_Steam'', VInt PLATFORM_STEAM),
     (KStr ''OnlinePlatform_NNX'', VInt PLATFORM_SWITCH),
     (KStr ''{'Value': ['OnlinePlatform', 'OnlinePlatform_Steam']}'', VInt PLATFORM_STEAM),
     (KStr ''{'Value': ['OnlinePlatform', 'OnlinePlatform_Dingo']}'', VInt PLATFORM_XBOX),
     (KStr ''{'Value': ['OnlinePlatform', 'OnlinePlatform_PS4']}'', VInt PLATFORM_PSN),
     (KStr ''{'Value': ['OnlinePlatform', 'OnlinePlatform_Unknown']}'', VInt PLATFORM_UNKNOWN),
     (KInt PLATFORM_UNKNOWN, VStr ''unknown''),
     (KStr (py_str PLATFORM_UNKNOWN), VStr ''unknown''),
     (KInt PLATFORM_STEAM, VStr ''steam''),
     (KStr (py_str PLATFORM_STEAM), VStr ''steam''),
     (KInt PLATFORM_PSN, VStr ''ps4''),
     (KStr (py_str PLATFORM_PSN), VStr ''ps4''),
     (KInt PLATFORM_XBOX, VStr ''xboxone''),
     (KStr (py_str PLATFORM_XBOX), VStr ''xboxone''),
     (KInt PLATFORM_SWITCH, VStr ''switch''),
     (KStr (py_str PLATFORM_SWITCH), VStr ''switch''),
     (KNone, VInt PLATFORM_UNKNOWN)]"

section \<open>Stored values and model rows\<close>

text \<open>
  A value of a \<^verbatim>\<open>JSONField\<close>. Numbers are the integers: the loadouts and component ids
  stored by the application are whole numbers, and fractional numbers are not modelled.
\<close>

datatype json =
    JNull
  | JBool bool
  | JInt int
  | JStr string
  | JList "json list"
  | JDict "(string \<times> json) list"

text \<open>
  The fields of \<^verbatim>\<open>Replay\<close>, \<^verbatim>\<open>Player\<close> and \<^verbatim>\<open>Goal\<close> that the modelled methods read. A field
  declared \<^verbatim>\<open>null=True\<close> is an \<open>option\<close>. The type \<open>'f\<close> is the type of Python floats
  (see the section on floats). A \<^verbatim>\<open>Goal\<close> row holds the \<^verbatim>\<open>Player\<close> row that its foreign
  key points to, which is what \<^verbatim>\<open>goal.player\<close> evaluates to.
\<close>

record 'f replay =
  pk :: nat
  replay_id :: "string option"
  playlist :: "int option"
  team_0_score :: "int option"
  team_1_score :: "int option"
  record_fps :: "'f option"

record player =
  player_name :: string
  team :: int
  platform :: "string option"
  online_id :: "string option"
  bot :: bool
  vehicle_loadout :: json

record goal =
  goal_replay :: nat
  number :: int
  player :: player
  frame :: "int option"

section \<open>Player: rating data and URL\<close>

text \<open>
  What the two methods call outside this module: the settings, the rating manager of the
  users application, Django's \<^verbatim>\<open>static\<close> and \<^verbatim>\<open>reverse\<close>, the template tag \<^verbatim>\<open>tier_name\<close>
  and the builtin \<^verbatim>\<open>int\<close> on strings. They are parameters of the model.
  \<open>get_or_request\<close> returns the tier of the rating found, or \<open>None\<close> where the manager
  returns a false value.
\<close>

record django_env =
  RANKED_PLAYLISTS :: "int list"
  get_or_request :: "string option \<Rightarrow> string option \<Rightarrow> int option \<Rightarrow> error + int option"
  static :: "string \<Rightarrow> string"
  tier_name :: "int \<Rightarrow> string"
  reverse_player :: "pyval \<Rightarrow> string option \<Rightarrow> error + string"
  py_int :: "string \<Rightarrow> error + int"

record rating_data =
  image :: string
  tier_label :: string

definition platform_key :: "string option \<Rightarrow> pykey" where
  "platform_key p = (case p of None \<Rightarrow> KNone | Some s \<Rightarrow> KStr s)"

text \<open>
  The body of the \<^verbatim>\<open>try\<close> block of \<^verbatim>\<open>Player.get_rating_data\<close>. The arguments of
  \<^verbatim>\<open>get_or_request\<close> are evaluated before the call, so the subscript
  \<^verbatim>\<open>PLATFORMS_MAPPINGS[self.platform]\<close> comes first.
\<close>

definition rating_lookup :: "django_env \<Rightarrow> 'f replay \<Rightarrow> player \<Rightarrow> error + rating_data option" where
  "rating_lookup env rp p =
    (case getitem PLATFORMS_MAPPINGS (platform_key (platform p)) of
       Inl e \<Rightarrow> Inl e
     | Inr v \<Rightarrow>
        (case get_or_request env (platform p)
                (if v = VInt PLATFORM_STEAM then online_id p else Some (player_name p))
                (playlist rp) of
           Inl e \<Rightarrow> Inl e
         | Inr None \<Rightarrow>
             Inr (Some \<lparr>image = static env ''img/tiers/icons/0.png'', tier_label = tier_name env 0\<rparr>)
         | Inr (Some t) \<Rightarrow>
             Inr (Some \<lparr>image = static env (''img/tiers/icons/'' @ py_str t @ ''.png''),
                        tier_label = tier_name env t\<rparr>)))"

text \<open>
  \<^verbatim>\<open>Player.get_rating_data\<close>: \<open>Inr None\<close> is the bare \<^verbatim>\<open>return\<close> for an unranked playlist.
  Only \<^verbatim>\<open>LeagueRating.DoesNotExist\<close> is caught; any other exception leaves the method.
\<close>

definition get_rating_data :: "django_env \<Rightarrow> 'f replay \<Rightarrow> player \<Rightarrow> error + rating_data option" where
  "get_rating_data env rp p =
    (if \<not> (case playlist rp of None \<Rightarrow> False | Some n \<Rightarrow> n \<in> set (RANKED_PLAYLISTS env))
     then Inr None
     else case rating_lookup env rp p of
       Inl e \<Rightarrow>
         (if e = DoesNotExist
          then Inr (Some \<lparr>image = static env ''img/tiers/icons/0.png'', tier_label = ''Unranked''\<rparr>)
          else Inl e)
     | Inr r \<Rightarrow> Inr r)"

text \<open>
  The body of the \<^verbatim>\<open>try\<close> block of \<^verbatim>\<open>Player.get_absolute_url\<close>, entered with a platform
  string \<open>s\<close>: the items of the \<^verbatim>\<open>kwargs\<close> display are evaluated in order, then
  \<^verbatim>\<open>reverse\<close> is called.
\<close>

definition player_url :: "django_env \<Rightarrow> player \<Rightarrow> string \<Rightarrow> error + string" where
  "player_url env p s =
    (case getitem PLATFORMS_MAPPINGS (KStr s) of
       Inl e \<Rightarrow> Inl e
     | Inr v \<Rightarrow>
        (case py_int env s of
           Inl e \<Rightarrow> Inl e
         | Inr n \<Rightarrow>
             reverse_player env v (if n = PLATFORM_STEAM then online_id p else Some (player_name p))))"

text \<open>\<^verbatim>\<open>Player.get_absolute_url\<close>: \<^verbatim>\<open>except Exception\<close> turns every failure into \<^verbatim>\<open>'#2'\<close>.\<close>

definition get_absolute_url :: "django_env \<Rightarrow> player \<Rightarrow> string" where
  "get_absolute_url env p =
    (if bot p \<or> platform p = Some ''0'' then ''#1''
     else case platform p of
       None \<Rightarrow> ''#1''
     | Some s \<Rightarrow>
        (if s = [] then ''#1''
         else case player_url env p s of Inl e \<Rightarrow> ''#2'' | Inr url \<Rightarrow> url))"

text \<open>A sample environment, replay and player on which the methods are run.\<close>

definition sample_env :: django_env where
  "sample_env =
    \<lparr>RANKED_PLAYLISTS = [10, 11, 12, 13],
     get_or_request = (\<lambda>plat oid pl. Inr (Some 7)),
     static = (\<lambda>path. ''/static/'' @ path),
     tier_name = (\<lambda>t. ''Tier '' @ py_str t),
     reverse_player = (\<lambda>v pid. case pid of None \<Rightarrow> Inl NoReverseMatch
                                   | Some i \<Rightarrow> Inr (''/players/'' @ i)),
     py_int = (\<lambda>s. if s = ''1'' then Inr 1 else Inl ValueError)\<rparr>"

definition sample_player :: player where
  "sample_player =
    \<lparr>player_name = ''Kronovi'', team = 0, platform = Some ''OnlinePlatform_Epic'',
     online_id = Some ''76561198000000000'', bot = False, vehicle_loadout = JNull\<rparr>"

definition sample_replay :: "rat replay" where
  "sample_replay = \<lparr>pk = 1, replay_id = Some ''0123456789ABCDEF0123456789ABCDEF'',
     playlist = Some 11, team_0_score = Some 1, team_1_score = Some 0, record_fps = Some 30\<rparr>"

section \<open>Replay.uuid\<close>

text \<open>
  A Python string is modelled as a list of characters with code points below 256.
  \<^verbatim>\<open>[A-F0-9]\<close> matches the sixteen upper-case hexadecimal digits.
\<close>

definition is_upper_hex :: "char \<Rightarrow> bool" where
  "is_upper_hex c = (c \<in> set ''ABCDEF0123456789'')"

text \<open>
  The pattern \<^verbatim>\<open>([A-F0-9]{8})([A-F0-9]{4})([A-F0-9]{4})([A-F0-9]{4})([A-F0-9]{12})\<close> has one
  length, 32: it matches at the start of \<open>s\<close> when the first 32 characters are upper-case
  hexadecimal digits. \<open>dashed m\<close> is the replacement for the match \<open>m\<close>: its five groups joined by dashes.
\<close>

definition matches_at :: "string \<Rightarrow> bool" where
  "matches_at s = (32 \<le> length s \<and> list_all is_upper_hex (take 32 s))"

definition dashed :: "string \<Rightarrow> string" where
  "dashed m = take 8 m @ ''-'' @ take 4 (drop 8 m) @ ''-'' @ take 4 (drop 12 m) @ ''-''
                @ take 4 (drop 16 m) @ ''-'' @ take 12 (drop 20 m)"

text \<open>
  \<^verbatim>\<open>re.sub\<close> with this pattern scans from the left: where the pattern matches, the match is
  replaced and the scan goes on behind it; elsewhere one character is copied. The pattern is
  not anchored, so every non-overlapping match in the string is replaced.
\<close>

function re_sub_uuid :: "string \<Rightarrow> string" where
  "re_sub_uuid s =
    (if s = [] then []
     else if matches_at s then dashed (take 32 s) @ re_sub_uuid (drop 32 s)
     else hd s # re_sub_uuid (tl s))"
  by pat_completeness auto
termination
  by (relation "measure length") auto

declare re_sub_uuid.simps [simp del]

text \<open>
  \<^verbatim>\<open>str.lower\<close>: the letters A to Z, and the upper-case letters of Latin-1 (code points 192
  to 222 except the multiplication sign 215), move up by 32; other characters stay.
\<close>

definition lower_char :: "char \<Rightarrow> char" where
  "lower_char c =
    (let n = (of_char c :: nat)
     in if (65 \<le> n \<and> n \<le> 90) \<or> (192 \<le> n \<and> n \<le> 222 \<and> n \<noteq> 215) then char_of (n + 32) else c)"

definition lower :: "string \<Rightarrow> string" where
  "lower s = map lower_char s"

text \<open>
  \<^verbatim>\<open>Replay.uuid\<close>. The column \<^verbatim>\<open>replay_id\<close> is nullable, and \<^verbatim>\<open>re.sub\<close> raises
  \<^verbatim>\<open>TypeError\<close> on \<^verbatim>\<open>None\<close>.
\<close>

definition uuid :: "'f replay \<Rightarrow> error + string" where
  "uuid rp = (case replay_id rp of None \<Rightarrow> Inl TypeError | Some s \<Rightarrow> Inr (lower (re_sub_uuid s)))"

text \<open>Whether the pattern matches somewhere in the string.\<close>

fun contains_match :: "string \<Rightarrow> bool" where
  "contains_match [] = False"
| "contains_match (c # cs) = (matches_at (c # cs) \<or> contains_match cs)"

text \<open>The sample replay with an id of 33 hexadecimal digits.\<close>

definition long_id_replay :: "rat replay" where
  "long_id_replay = sample_replay\<lparr>replay_id := Some ''0123456789ABCDEF0123456789ABCDEF0''\<rparr>"

section \<open>Floats\<close>

text \<open>
  The arithmetic of Python floats is a parameter of the model: a type \<open>'f\<close> of floats with
  the operations that the methods use. An integer operand of a mixed operation is converted
  with \<open>of_int_f\<close> first, as Python does. A division is only reached behind the source's
  test that the divisor is not zero. \<open>int_of_f\<close> is the builtin \<^verbatim>\<open>int\<close>, which raises on
  a float that is not finite.
\<close>

record 'f float_ops =
  of_int_f :: "int \<Rightarrow> 'f"
  fadd :: "'f \<Rightarrow> 'f \<Rightarrow> 'f"
  fmul :: "'f \<Rightarrow> 'f \<Rightarrow> 'f"
  fdiv :: "'f \<Rightarrow> 'f \<Rightarrow> 'f"
  fdivmod :: "'f \<Rightarrow> 'f \<Rightarrow> 'f \<times> 'f"
  is_true :: "'f \<Rightarrow> bool"
  int_of_f :: "'f \<Rightarrow> error + int"
  lit_1_2 :: "'f"

text \<open>
  Floats without rounding: the rational numbers with exact arithmetic, on which the methods
  are run. \<^verbatim>\<open>divmod\<close> rounds the quotient down; \<^verbatim>\<open>int\<close> rounds towards zero.
\<close>

definition exact_floats :: "rat float_ops" where
  "exact_floats =
    \<lparr>of_int_f = of_int,
     fadd = (\<lambda>x y. x + y),
     fmul = (\<lambda>x y. x * y),
     fdiv = (\<lambda>x y. x / y),
     fdivmod = (\<lambda>x y. (of_int \<lfloor>x / y\<rfloor>, x - of_int \<lfloor>x / y\<rfloor> * y)),
     is_true = (\<lambda>x. x \<noteq> 0),
     int_of_f = (\<lambda>x. Inr (if 0 \<le> x then \<lfloor>x\<rfloor> else \<lceil>x\<rceil>)),
     lit_1_2 = 6 / 5\<rparr>"

section \<open>Goal.goal_time\<close>



definition sample_goal :: goal where
  "sample_goal = \<lparr>goal_replay = 1, number = 1, player = sample_player\<lparr>platform := Some ''1''\<rparr>,
                  frame = Some 1830\<rparr>"

section \<open>Goal ordering\<close>

text \<open>
  \<^verbatim>\<open>Goal.Meta.ordering = ['frame']\<close>: a query for goals is ordered by the column \<^verbatim>\<open>frame\<close>,
  ascending. Where the database puts the rows whose frame is \<^verbatim>\<open>NULL\<close> depends on the
  database (before the others or behind them): \<open>nulls_first\<close> says which. The order
  among rows of the same frame is left open by the query; the model keeps the table's order.
\<close>

definition frame_key :: "bool \<Rightarrow> goal \<Rightarrow> nat \<times> int" where
  "frame_key nulls_first g =
    (case frame g of
       None \<Rightarrow> (if nulls_first then 0 else 2, 0)
     | Some n \<Rightarrow> (1, n))"

text \<open>\<^verbatim>\<open>replay.goal_set.all()\<close> on the goal table \<open>tbl\<close>.\<close>

definition goal_set :: "bool \<Rightarrow> goal list \<Rightarrow> 'f replay \<Rightarrow> goal list" where
  "goal_set nulls_first tbl rp =
    sort_key (frame_key nulls_first) (filter (\<lambda>g. goal_replay g = pk rp) tbl)"

definition sample_goals :: "goal list" where
  "sample_goals =
    [sample_goal\<lparr>number := 2, frame := Some 4000\<rparr>,
     sample_goal\<lparr>number := 3, frame := None\<rparr>,
     sample_goal\<lparr>goal_replay := 2\<rparr>,
     sample_goal]"

section \<open>Replay.calculate_excitement_factor\<close>

text \<open>The loop over the goals: the running swing after each goal, from the swing \<open>sw\<close> before.\<close>

fun swing_values :: "int \<Rightarrow> goal list \<Rightarrow> int list" where
  "swing_values sw [] = []"
| "swing_values sw (g # gs) =
    (let sw' = (if team (player g) = 0 then sw - 1 else sw + 1) in sw' # swing_values sw' gs)"

text \<open>
  \<^verbatim>\<open>Replay.calculate_excitement_factor\<close>, on the goals \<open>goals\<close> that \<^verbatim>\<open>self.goal_set.all()\<close>
  returns. The scores are nullable columns, and comparing \<^verbatim>\<open>None\<close> raises \<^verbatim>\<open>TypeError\<close>.
  \<^verbatim>\<open>max\<close> and \<^verbatim>\<open>min\<close> are only applied to lists that are not empty.
\<close>

definition calculate_excitement_factor :: "'f float_ops \<Rightarrow> 'f replay \<Rightarrow> goal list \<Rightarrow> error + 'f" where
  "calculate_excitement_factor ops rp goals =
    (case (team_0_score rp, team_1_score rp) of
       (Some t0, Some t1) \<Rightarrow>
         (let swing_rating_multiplier = 8;
              goal_count_multiplier = lit_1_2 ops;
              swings = swing_values 0 goals;
              deficit_values = filter (\<lambda>x. x < 0) swings;
              deficit =
                (if t0 > t1
                 then (if deficit_values \<noteq> [] then Max (set swings) else 0)
                 else (if deficit_values \<noteq> [] then \<bar>Min (set deficit_values)\<bar> else 0));
              score_min_def = (if t0 > t1 then t0 - deficit else t1 - deficit);
              swing_rating =
                (if score_min_def \<noteq> 0
                 then fmul ops (fdiv ops (of_int_f ops deficit) (of_int_f ops score_min_def))
                        (of_int_f ops swing_rating_multiplier)
                 else of_int_f ops 0);
              total_goals = (if t0 + t1 > 5 then 5 else t0 + t1)
          in Inr (fadd ops swing_rating (fmul ops (of_int_f ops total_goals) goal_count_multiplier)))
     | _ \<Rightarrow> Inl TypeError)"

section \<open>BoostData\<close>

record boost_data =
  boost_replay :: nat
  boost_player :: nat
  boost_frame :: int
  boost_value :: int

text \<open>
  The validators of \<^verbatim>\<open>BoostData.value\<close>: \<^verbatim>\<open>MinValueValidator(0)\<close> rejects a value below 0,
  \<^verbatim>\<open>MaxValueValidator(255)\<close> a value above 255. Validation collects the errors of all
  validators.
\<close>

datatype validation_error = MinValue int | MaxValue int

definition MinValueValidator :: "int \<Rightarrow> int \<Rightarrow> validation_error list" where
  "MinValueValidator limit a = (if a < limit then [MinValue limit] else [])"

definition MaxValueValidator :: "int \<Rightarrow> int \<Rightarrow> validation_error list" where
  "MaxValueValidator limit a = (if a > limit then [MaxValue limit] else [])"

definition value_validators :: "(int \<Rightarrow> validation_error list) list" where
  "value_validators = [MinValueValidator 0, MaxValueValidator 255]"

definition run_validators :: "boost_data \<Rightarrow> validation_error list" where
  "run_validators b = concat (map (\<lambda>v. v (boost_value b)) value_validators)"

text \<open>
  Modelled from the spec: the parser module that creates the \<^verbatim>\<open>BoostData\<close> rows is missing
  (\<^verbatim>\<open>replays/parser.py\<close>). The spec has the netstream decoder read the boost amount
  as a byte; the row recorded for a player at a frame holds that byte's value.
\<close>

definition record_boost :: "nat \<Rightarrow> nat \<Rightarrow> int \<Rightarrow> 8 word \<Rightarrow> boost_data" where
  "record_boost rp pl fr amount =
    \<lparr>boost_replay = rp, boost_player = pl, boost_frame = fr, boost_value = uint amount\<rparr>"

section \<open>Player.vehicle_data\<close>

text \<open>
  A row of \<^verbatim>\<open>Component\<close>, with its primary key. The table of components is the list of its
  rows in the order of their creation; a query without ordering returns them in that order.
  Limits of the database on the width of a column are not modelled.
\<close>

record component =
  component_pk :: nat
  type :: string
  internal_id :: int
  name :: string

text \<open>\<^verbatim>\<open>Component.objects.filter(type=t, internal_id=i)\<close>.\<close>

definition objects_filter :: "component list \<Rightarrow> string \<Rightarrow> int \<Rightarrow> component list" where
  "objects_filter tbl t i = filter (\<lambda>c. type c = t \<and> internal_id c = i) tbl"

text \<open>
  \<^verbatim>\<open>Component.objects.create(type=t, internal_id=i, name=n)\<close>: the new row gets a fresh
  primary key and is returned with the table that holds it.
\<close>

definition objects_create :: "component list \<Rightarrow> string \<Rightarrow> int \<Rightarrow> string \<Rightarrow> component \<times> component list" where
  "objects_create tbl t i n =
    (let c = \<lparr>component_pk = Suc (fold max (map component_pk tbl) 0), type = t,
               internal_id = i, name = n\<rparr>
     in (c, tbl @ [c]))"

text \<open>
  \<^verbatim>\<open>Component.objects.get_or_create(type=t, internal_id=i, defaults={'name': n})\<close>: the one
  row that matches, or a new row; \<^verbatim>\<open>MultipleObjectsReturned\<close> when several rows match. The
  column \<^verbatim>\<open>internal_id\<close> is a \<^verbatim>\<open>PositiveIntegerField\<close>, and the database refuses a new row
  with a negative value.
\<close>

definition objects_get_or_create ::
    "component list \<Rightarrow> string \<Rightarrow> int \<Rightarrow> string \<Rightarrow> (error + component) \<times> component list" where
  "objects_get_or_create tbl t i n =
    (case objects_filter tbl t i of
       [] \<Rightarrow> (if i < 0 then (Inl IntegrityError, tbl)
              else let (c, tbl') = objects_create tbl t i n in (Inr c, tbl'))
     | [c] \<Rightarrow> (Inr c, tbl)
     | _ \<Rightarrow> (Inl MultipleObjectsReturned, tbl))"

text \<open>\<^verbatim>\<open>component.save()\<close> of a row that is in the table: the row of that key is replaced.\<close>

definition save :: "component list \<Rightarrow> component \<Rightarrow> component list" where
  "save tbl c = map (\<lambda>r. if component_pk r = component_pk c then c else r) tbl"

text \<open>The truth value of a stored value: \<^verbatim>\<open>None\<close>, \<^verbatim>\<open>False\<close>, 0 and the empty string, list and
  dictionary are false.\<close>

fun truthy :: "json \<Rightarrow> bool" where
  "truthy JNull = False"
| "truthy (JBool b) = b"
| "truthy (JInt n) = (n \<noteq> 0)"
| "truthy (JStr s) = (s \<noteq> [])"
| "truthy (JList xs) = (xs \<noteq> [])"
| "truthy (JDict d) = (d \<noteq> [])"

text \<open>
  The number that a stored value is in a comparison with an integer and as a value of an
  integer column: an integer is itself, \<^verbatim>\<open>True\<close> and \<^verbatim>\<open>False\<close> are 1 and 0. The other values
  are no numbers, and \<^verbatim>\<open>component > 0\<close> raises \<^verbatim>\<open>TypeError\<close> on them.
\<close>

fun as_number :: "json \<Rightarrow> int option" where
  "as_number (JInt n) = Some n"
| "as_number (JBool b) = Some (if b then 1 else 0)"
| "as_number _ = None"

text \<open>The component dictionary that the method builds: \<^verbatim>\<open>components[k] = c\<close> replaces the
  value of a key that is there and adds the key behind the others otherwise.\<close>

type_synonym components = "(string \<times> component) list"

definition component_maps_list :: "string list" where
  "component_maps_list = [''body'', ''decal'', ''wheels'', ''trail'', ''antenna'', ''topper'']"

text \<open>
  The loop over a list-shaped loadout, \<^verbatim>\<open>for index, component in enumerate(...)\<close>, from the
  position \<open>index\<close> on. The subscript \<^verbatim>\<open>component_maps[index]\<close> raises \<^verbatim>\<open>IndexError\<close> at a
  position that has no name. An exception leaves the rows created so far in the table.
\<close>

fun list_loop ::
    "nat \<Rightarrow> json list \<Rightarrow> components \<Rightarrow> component list \<Rightarrow> (error + components) \<times> component list" where
  "list_loop index [] comps tbl = (Inr comps, tbl)"
| "list_loop index (component # rest) comps tbl =
    (case as_number component of
       None \<Rightarrow> (Inl TypeError, tbl)
     | Some n \<Rightarrow>
        (if n > 0 then
           (if index < length component_maps_list then
              (let t = component_maps_list ! index in
               case objects_filter tbl t n of
                 [] \<Rightarrow>
                   (let (c, tbl') = objects_create tbl t n ''Unknown''
                    in list_loop (Suc index) rest (AList.update t c comps) tbl')
               | c # others \<Rightarrow> list_loop (Suc index) rest (AList.update t c comps) tbl)
            else (Inl IndexError, tbl))
         else list_loop (Suc index) rest comps tbl))"

text \<open>
  \<^verbatim>\<open>str.replace(old, new)\<close> for a pattern \<open>old\<close> that is not empty: every occurrence, from
  the left and without overlap.
\<close>

function replace :: "string \<Rightarrow> string \<Rightarrow> string \<Rightarrow> string" where
  "replace old new s =
    (if s = [] \<or> old = [] then s
     else if take (length old) s = old then new @ replace old new (drop (length old) s)
     else hd s # replace old new (tl s))"
  by pat_completeness auto
termination
  by (relation "measure (\<lambda>(old, new, s). length s)") auto

declare replace.simps [simp del]

text \<open>\<^verbatim>\<open>v[key]\<close> for a stored value \<open>v\<close> and a string key: only a dictionary takes it.\<close>

definition subscript :: "json \<Rightarrow> string \<Rightarrow> error + json" where
  "subscript v key = (case v of JDict d \<Rightarrow> getitem d key | _ \<Rightarrow> Inl TypeError)"

text \<open>
  The component names of a dict-shaped loadout, each with the type of its component and the
  prefix that is cut from the item's name. The model goes through them in source order.
\<close>

definition component_maps_dict :: "(string \<times> string \<times> string) list" where
  "component_maps_dict =
    [(''Body'', ''body'', ''Body_''),
     (''Decal'', ''decal'', ''Skin_''),
     (''Wheels'', ''wheels'', ''WHEEL_''),
     (''RocketTrail'', ''trail'', ''Boost_''),
     (''Antenna'', ''antenna'', ''Antenna ''),
     (''Topper'', ''topper'', ''Hat_'')]"

text \<open>
  The value of \<^verbatim>\<open>internal_id\<close> that a stored \<^verbatim>\<open>Id\<close> gives in a query: Django converts it
  with \<^verbatim>\<open>int\<close>. \<^verbatim>\<open>None\<close> matches no row and cannot be stored in the column.
\<close>

definition id_value :: "django_env \<Rightarrow> json \<Rightarrow> error + int" where
  "id_value env j =
    (case j of
       JStr s \<Rightarrow> py_int env s
     | JNull \<Rightarrow> Inl IntegrityError
     | JList xs \<Rightarrow> Inl TypeError
     | JDict d \<Rightarrow> Inl TypeError
     | JInt n \<Rightarrow> Inr n
     | JBool b \<Rightarrow> Inr (if b then 1 else 0))"

text \<open>
  The body of the \<^verbatim>\<open>try\<close> block for one component of a dict-shaped loadout: \<open>v\<close> is the
  loadout's item, \<open>nm\<close> its \<^verbatim>\<open>Name\<close>. It yields the component for the dictionary, after the
  renaming of a component that was called \<^verbatim>\<open>'Unknown'\<close>, or the exception.
\<close>

definition try_component ::
    "django_env \<Rightarrow> component list \<Rightarrow> string \<Rightarrow> string \<Rightarrow> json \<Rightarrow> json
      \<Rightarrow> (error + component) \<times> component list" where
  "try_component env tbl t repl v nm =
    (case subscript v ''Id'' of
       Inl e \<Rightarrow> (Inl e, tbl)
     | Inr idj \<Rightarrow>
        (case nm of
           JStr s \<Rightarrow>
             (let cleaned = replace ''_'' '' '' (replace repl [] s) in
              case id_value env idj of
                Inl e \<Rightarrow> (Inl e, tbl)
              | Inr i \<Rightarrow>
                 (case objects_get_or_create tbl t i cleaned of
                    (Inl e, tbl') \<Rightarrow> (Inl e, tbl')
                  | (Inr c, tbl') \<Rightarrow>
                      (if name c = ''Unknown''
                       then (let c' = c\<lparr>name := cleaned\<rparr> in (Inr c', save tbl' c'))
                       else (Inr c, tbl'))))
         | _ \<Rightarrow> (Inl AttributeError, tbl)))"

text \<open>
  The loop over the component names for a dict-shaped loadout \<open>vl\<close>. The test of the
  \<^verbatim>\<open>if\<close> stands outside the \<^verbatim>\<open>try\<close>: an item that is no dictionary or has no \<^verbatim>\<open>Name\<close>
  raises. Inside, \<^verbatim>\<open>except Exception: pass\<close> skips the component.
\<close>

fun dict_loop ::
    "django_env \<Rightarrow> (string \<times> string \<times> string) list \<Rightarrow> (string \<times> json) list \<Rightarrow> components
      \<Rightarrow> component list \<Rightarrow> (error + components) \<times> component list" where
  "dict_loop env [] vl comps tbl = (Inr comps, tbl)"
| "dict_loop env ((component_type, t, repl) # rest) vl comps tbl =
    (case dict_display vl component_type of
       None \<Rightarrow> dict_loop env rest vl comps tbl
     | Some v \<Rightarrow>
        (case subscript v ''Name'' of
           Inl e \<Rightarrow> (Inl e, tbl)
         | Inr nm \<Rightarrow>
            (if truthy nm then
               (case try_component env tbl t repl v nm of
                  (Inl e, tbl') \<Rightarrow> dict_loop env rest vl comps tbl'
                | (Inr c, tbl') \<Rightarrow> dict_loop env rest vl (AList.update t c comps) tbl')
             else dict_loop env rest vl comps tbl)))"

text \<open>
  \<^verbatim>\<open>Player.vehicle_data\<close> on the component table \<open>tbl\<close>: the components or the exception,
  the table afterwards, and the player, whose attribute \<^verbatim>\<open>vehicle_loadout\<close> the method
  replaces by the trimmed list when the list has nine elements.
\<close>

definition vehicle_data ::
    "django_env \<Rightarrow> component list \<Rightarrow> player \<Rightarrow> (error + components) \<times> component list \<times> player" where
  "vehicle_data env tbl p =
    (if \<not> truthy (vehicle_loadout p) then (Inr [], tbl, p)
     else case vehicle_loadout p of
       JList xs \<Rightarrow>
         (let ys = (if length xs = 9 then take 7 (drop 1 xs) else xs);
              p' = (if length xs = 9 then p\<lparr>vehicle_loadout := JList ys\<rparr> else p)
          in if length ys \<noteq> 7 then (Inl AssertionError, tbl, p')
             else let (r, tbl') = list_loop 0 ys [] tbl in (r, tbl', p'))
     | JDict d \<Rightarrow> (let (r, tbl') = dict_loop env component_maps_dict d [] tbl in (r, tbl', p))
     | _ \<Rightarrow> (Inr [], tbl, p))"




definition sample_table :: "component list" where
  "sample_table =
    [\<lparr>component_pk = 1, type = ''body'', internal_id = 403, name = ''Octane''\<rparr>,
     \<lparr>component_pk = 2, type = ''body'', internal_id = 22, name = ''Unknown''\<rparr>]"





section \<open>Properties\<close>

subsection \<open>Decimal digits\<close>

lemma str_nat_digit: "n < 10 \<Longrightarrow> str_nat n = [digit_char n]"
  by (simp add: str_nat.simps)






lemma py_str_platform_codes:
  "py_str 0 = ''0''" "py_str 1 = ''1''" "py_str 2 = ''2''" "py_str 4 = ''4''" "py_str 6 = ''6''"
  by (simp_all add: py_str_def str_nat_digit digit_char_def)

subsection \<open>The platform tables\<close>

lemmas platform_consts =
  PLATFORM_UNKNOWN_def PLATFORM_STEAM_def PLATFORM_PSN_def PLATFORM_XBOX_def PLATFORM_SWITCH_def

text \<open>
  Claim C3. The platform enumeration \<^verbatim>\<open>PLATFORMS\<close> assigns exactly Unknown = 0, Steam = 1,
  PlayStation = 2, Xbox = 4 and Switch = 6, and every item of \<^verbatim>\<open>PLATFORMS_MAPPINGS\<close> whose
  value is a platform number has one of these five numbers.
\<close>

theorem platform_enumeration:
  "(dict_display PLATFORMS title = Some v \<longleftrightarrow>
      (title, v) \<in> {(''Unknown'', 0), (''Steam'', 1), (''PlayStation'', 2), (''Xbox'', 4), (''Switch'', 6)})
   \<and> ((k, VInt n) \<in> set PLATFORMS_MAPPINGS \<longrightarrow> n \<in> {0, 1, 2, 4, 6})"
  by (auto simp: dict_display_def PLATFORMS_def PLATFORMS_MAPPINGS_def platform_consts)

theorem platform_enumeration_witness:
  "(KStr ''ps4'', VInt 2) \<in> set PLATFORMS_MAPPINGS \<and> (2::int) \<in> {0, 1, 2, 4, 6}
   \<and> dict_display PLATFORMS ''Xbox'' = Some 4"
  using platform_enumeration [of "''Xbox''" 4 "KStr ''ps4''" 2]
  by (simp add: PLATFORMS_MAPPINGS_def platform_consts)

text \<open>
  Claim C2, as the table has it. The field string \<^verbatim>\<open>'OnlinePlatform_Steam'\<close> is mapped to the
  Steam number 1. The numeric code 1, and the string \<^verbatim>\<open>'1'\<close>, are mapped to the API name
  \<^verbatim>\<open>'steam'\<close>, not to a platform number; the table maps that name to 1 in turn.
\<close>

theorem steam_lookups:
  "getitem PLATFORMS_MAPPINGS (KStr ''OnlinePlatform_Steam'') = Inr (VInt PLATFORM_STEAM)
   \<and> getitem PLATFORMS_MAPPINGS (KInt 1) = Inr (VStr ''steam'')
   \<and> getitem PLATFORMS_MAPPINGS (KStr ''1'') = Inr (VStr ''steam'')
   \<and> getitem PLATFORMS_MAPPINGS (KStr ''steam'') = Inr (VInt PLATFORM_STEAM)"
  by (simp add: getitem_def dict_display_def PLATFORMS_MAPPINGS_def platform_consts py_str_platform_codes)

text \<open>
  The code 1 and the string \<^verbatim>\<open>'OnlinePlatform_Steam'\<close> do not have the same value in the table:
  the first has the string \<^verbatim>\<open>'steam'\<close>, the second the number 1.
\<close>

theorem steam_code_counterexample:
  "getitem PLATFORMS_MAPPINGS (KInt 1) \<noteq> getitem PLATFORMS_MAPPINGS (KStr ''OnlinePlatform_Steam'')
   \<and> getitem PLATFORMS_MAPPINGS (KInt 1) \<noteq> Inr (VInt PLATFORM_STEAM)"
  by (simp add: getitem_def dict_display_def PLATFORMS_MAPPINGS_def platform_consts py_str_platform_codes)

lemma getitem_missing:
  "k \<notin> fst ` set d \<Longrightarrow> getitem d k = Inl KeyError"
  by (simp add: getitem_def dict_display_def map_of_eq_None_iff [THEN iffD2])

text \<open>
  Claim C1, as the code has it. For a platform string that is not a key of the table, the
  subscript \<^verbatim>\<open>PLATFORMS_MAPPINGS[platform]\<close> raises \<^verbatim>\<open>KeyError\<close>: there is no default. The
  absent platform \<^verbatim>\<open>None\<close> is a key, mapped to Unknown (0). \<^verbatim>\<open>Player.get_absolute_url\<close>
  catches the error and returns \<^verbatim>\<open>'#2'\<close> for a player that is not a bot.
\<close>

theorem unrecognized_platform_lookup:
  assumes "KStr s \<notin> fst ` set PLATFORMS_MAPPINGS"
  shows "getitem PLATFORMS_MAPPINGS (KStr s) = Inl KeyError
     \<and> getitem PLATFORMS_MAPPINGS KNone = Inr (VInt PLATFORM_UNKNOWN)
     \<and> (\<not> bot p \<and> platform p = Some s \<and> s \<noteq> [] \<longrightarrow> get_absolute_url env p = ''#2'')"
proof -
  have miss: "getitem PLATFORMS_MAPPINGS (KStr s) = Inl KeyError"
    using assms by (rule getitem_missing)
  have none: "getitem PLATFORMS_MAPPINGS KNone = Inr (VInt PLATFORM_UNKNOWN)"
    by (simp add: getitem_def dict_display_def PLATFORMS_MAPPINGS_def)
  have zero: "s \<noteq> ''0''"
    using assms by (auto simp: PLATFORMS_MAPPINGS_def py_str_platform_codes platform_consts)
  have url: "get_absolute_url env p = ''#2''" if "\<not> bot p" "platform p = Some s" "s \<noteq> []"
    using that miss zero by (simp add: get_absolute_url_def player_url_def)
  from miss none url show ?thesis by blast
qed

lemma epic_not_listed: "KStr ''OnlinePlatform_Epic'' \<notin> fst ` set PLATFORMS_MAPPINGS"
  by (simp add: PLATFORMS_MAPPINGS_def py_str_platform_codes platform_consts)

theorem unrecognized_platform_lookup_witness:
  "KStr ''OnlinePlatform_Epic'' \<notin> fst ` set PLATFORMS_MAPPINGS
   \<and> getitem PLATFORMS_MAPPINGS (KStr ''OnlinePlatform_Epic'') = Inl KeyError
   \<and> \<not> bot sample_player \<and> platform sample_player = Some ''OnlinePlatform_Epic''
   \<and> get_absolute_url sample_env sample_player = ''#2''"
  using unrecognized_platform_lookup [OF epic_not_listed, of sample_player sample_env] epic_not_listed
  by (simp add: sample_player_def)

text \<open>
  The string \<^verbatim>\<open>'OnlinePlatform_Epic'\<close> is not in the table. Its lookup is not Unknown but a
  \<^verbatim>\<open>KeyError\<close>, and \<^verbatim>\<open>Player.get_rating_data\<close>, which only catches
  \<^verbatim>\<open>LeagueRating.DoesNotExist\<close>, raises it for a player of a ranked replay.
\<close>

theorem unrecognized_platform_counterexample:
  "KStr ''OnlinePlatform_Epic'' \<notin> fst ` set PLATFORMS_MAPPINGS
   \<and> getitem PLATFORMS_MAPPINGS (KStr ''OnlinePlatform_Epic'') = Inl KeyError
   \<and> getitem PLATFORMS_MAPPINGS (KStr ''OnlinePlatform_Epic'') \<noteq> Inr (VInt PLATFORM_UNKNOWN)
   \<and> platform sample_player = Some ''OnlinePlatform_Epic''
   \<and> get_rating_data sample_env sample_replay sample_player = Inl KeyError"
  using epic_not_listed getitem_missing [OF epic_not_listed]
  by (simp add: get_rating_data_def rating_lookup_def sample_player_def sample_replay_def
      sample_env_def platform_key_def)

subsection \<open>The components of a loadout\<close>

















lemma absent_run:
  "vehicle_data sample_env sample_table sample_player = (Inr [], sample_table, sample_player)"
  by (simp add: vehicle_data_def sample_player_def)




subsection \<open>Boost values\<close>

text \<open>
  Claim C5. The value of every boost row recorded from a decoded byte lies between 0 and
  255 and passes the validators of the field; and a boost row passes the validators exactly
  when its value lies between 0 and 255.
\<close>

theorem boost_value_is_byte:
  "0 \<le> boost_value (record_boost rp pl fr amount)
   \<and> boost_value (record_boost rp pl fr amount) \<le> 255
   \<and> run_validators (record_boost rp pl fr amount) = []
   \<and> (run_validators b = [] \<longleftrightarrow> 0 \<le> boost_value b \<and> boost_value b \<le> 255)"
proof -
  have "uint amount < 256" using uint_bounded [of amount] by simp
  then show ?thesis
    by (auto simp: record_boost_def run_validators_def value_validators_def
        MinValueValidator_def MaxValueValidator_def)
qed

theorem boost_value_is_byte_witness:
  "boost_value (record_boost 1 1 120 255) = 255
   \<and> run_validators (record_boost 1 1 120 255) = []
   \<and> run_validators \<lparr>boost_replay = 1, boost_player = 1, boost_frame = 120, boost_value = 256\<rparr>
       = [MaxValue 255]"
  using boost_value_is_byte [of 1 1 120 255
      "\<lparr>boost_replay = 1, boost_player = 1, boost_frame = 120, boost_value = 256\<rparr>"]
  by (simp add: record_boost_def run_validators_def value_validators_def
      MinValueValidator_def MaxValueValidator_def)

subsection \<open>The goals of a replay\<close>

lemma goal_set_sorted: "sorted (map (frame_key nf) (goal_set nf tbl rp))"
  by (simp add: goal_set_def)

lemma goal_set_set: "set (goal_set nf tbl rp) = {g \<in> set tbl. goal_replay g = pk rp}"
  by (simp add: goal_set_def)

lemma goal_set_mset: "mset (goal_set nf tbl rp) = mset (filter (\<lambda>g. goal_replay g = pk rp) tbl)"
  by (simp add: goal_set_def)

lemma frame_key_le:
  "frame g = Some a \<Longrightarrow> frame h = Some b \<Longrightarrow> frame_key nf g \<le> frame_key nf h \<Longrightarrow> a \<le> b"
  by (simp add: frame_key_def)

text \<open>
  Claim C6, as the code has it. Every goal row holds the scoring player (the field
  \<open>player\<close> of the row); its frame is optional. The goals of a replay are exactly the rows of
  the table that belong to it, ordered by frame: of two goals with a frame, the earlier in
  the sequence has the smaller or equal frame, and the goals without a frame stand together
  at the end that the database gives to \<^verbatim>\<open>NULL\<close>.
\<close>

theorem goal_set_ordered_by_frame:
  "set (goal_set nf tbl rp) = {g \<in> set tbl. goal_replay g = pk rp}
   \<and> mset (goal_set nf tbl rp) = mset (filter (\<lambda>g. goal_replay g = pk rp) tbl)
   \<and> (i < j \<and> j < length (goal_set nf tbl rp)
        \<and> frame (goal_set nf tbl rp ! i) = Some a \<and> frame (goal_set nf tbl rp ! j) = Some b
       \<longrightarrow> a \<le> b)
   \<and> (i < j \<and> j < length (goal_set nf tbl rp) \<and> frame (goal_set nf tbl rp ! j) = None
       \<and> nf \<longrightarrow> frame (goal_set nf tbl rp ! i) = None)
   \<and> (i < j \<and> j < length (goal_set nf tbl rp) \<and> frame (goal_set nf tbl rp ! i) = None
       \<and> \<not> nf \<longrightarrow> frame (goal_set nf tbl rp ! j) = None)"
proof -
  let ?gs = "goal_set nf tbl rp"
  have ord: "frame_key nf (?gs ! i) \<le> frame_key nf (?gs ! j)" if "i < j" "j < length ?gs"
  proof -
    have "map (frame_key nf) ?gs ! i \<le> map (frame_key nf) ?gs ! j"
      using goal_set_sorted [of nf tbl rp] that
      by (intro sorted_nth_mono) simp_all
    then show ?thesis using that by simp
  qed
  have p1: "a \<le> b" if "i < j" "j < length ?gs" "frame (?gs ! i) = Some a" "frame (?gs ! j) = Some b"
    using that(3,4) ord [OF that(1,2)] by (rule frame_key_le)
  have p2: "frame (?gs ! i) = None" if "i < j" "j < length ?gs" "frame (?gs ! j) = None" "nf"
    using ord [OF that(1,2)] that(3,4) by (auto simp: frame_key_def split: option.splits)
  have p3: "frame (?gs ! j) = None" if "i < j" "j < length ?gs" "frame (?gs ! i) = None" "\<not> nf"
    using ord [OF that(1,2)] that(3,4) by (auto simp: frame_key_def split: option.splits)
  show ?thesis
    using p1 p2 p3 goal_set_set [of nf tbl rp] goal_set_mset [of nf tbl rp] by blast
qed

lemma sample_goal_set:
  "goal_set True sample_goals sample_replay =
    [sample_goal\<lparr>number := 3, frame := None\<rparr>, sample_goal,
     sample_goal\<lparr>number := 2, frame := Some 4000\<rparr>]"
  by (simp add: goal_set_def sample_goals_def sample_goal_def sample_replay_def frame_key_def)

theorem goal_set_ordered_by_frame_witness:
  "(0::nat) < 1 \<and> 1 < length (goal_set True sample_goals sample_replay)
   \<and> frame (goal_set True sample_goals sample_replay ! 1) = Some 1830
   \<and> frame (goal_set True sample_goals sample_replay ! 2) = Some 4000
   \<and> frame (goal_set True sample_goals sample_replay ! 0) = None
   \<and> (1830::int) \<le> 4000"
  using goal_set_ordered_by_frame [of True sample_goals sample_replay 1 2 1830 4000]
    goal_set_ordered_by_frame [of True sample_goals sample_replay 0 1 0 0]
  by (simp add: sample_goal_set) (simp add: sample_goal_def)

text \<open>
  A goal of the sample replay that carries no frame: the column is nullable.
\<close>

theorem goal_without_frame_counterexample:
  "goal_set True sample_goals sample_replay ! 0 \<in> set sample_goals
   \<and> goal_replay (goal_set True sample_goals sample_replay ! 0) = pk sample_replay
   \<and> frame (goal_set True sample_goals sample_replay ! 0) = None"
  by (simp add: sample_goal_set) (simp add: sample_goals_def sample_goal_def sample_replay_def)

subsection \<open>The time of a goal\<close>






lemma exact_simps:
  "of_int_f exact_floats = of_int"
  "fdiv exact_floats x y = x / y"
  "fmul exact_floats x y = x * y"
  "fadd exact_floats x y = x + y"
  "fdivmod exact_floats x y = (of_int \<lfloor>x / y\<rfloor>, x - of_int \<lfloor>x / y\<rfloor> * y)"
  "is_true exact_floats x = (x \<noteq> 0)"
  "int_of_f exact_floats x = Inr (if 0 \<le> x then \<lfloor>x\<rfloor> else \<lceil>x\<rceil>)"
  "lit_1_2 exact_floats = 6 / 5"
  by (simp_all add: exact_floats_def)



subsection \<open>The excitement factor\<close>

text \<open>
  Claim C9 at a replay that team 0 wins 1-0 with the only goal: the winner is never behind,
  and the claimed factor is \<open>min (1 + 0) 5\<close> times 1.2. The branch for a win of team 0 takes the
  swings below zero, where team 0 leads, for deficits, and the greatest swing for the
  deficit: here \<open>- 1\<close>, which gives the swing term \<open>- 1 / 2 * 8\<close> and the factor \<open>- 2.8\<close>.
\<close>

theorem excitement_factor_team_0_win:
  "team_0_score sample_replay = Some 1 \<and> team_1_score sample_replay = Some 0
   \<and> goal_set True [sample_goal] sample_replay = [sample_goal]
   \<and> team (player sample_goal) = 0
   \<and> swing_values 0 [sample_goal] = [- 1]
   \<and> calculate_excitement_factor exact_floats sample_replay (goal_set True [sample_goal] sample_replay)
       = Inr (- 14 / 5)
   \<and> fmul exact_floats (of_int_f exact_floats (min (1 + 0) 5)) (lit_1_2 exact_floats) = 6 / 5"
proof -
  have gs: "goal_set True [sample_goal] sample_replay = [sample_goal]"
    by (simp add: goal_set_def sample_goal_def sample_replay_def)
  show ?thesis
    by (simp add: gs) (simp add: calculate_excitement_factor_def sample_replay_def sample_goal_def
      sample_player_def exact_floats_def)
qed

text \<open>
  The other branch, for a replay that team 0 does not win: when no swing is below zero, the
  swing term is zero and the factor is the number of goals, at most 5, times 1.2.
\<close>

lemma excitement_factor_team_1_no_deficit:
  assumes "team_0_score rp = Some t0" "team_1_score rp = Some t1" "\<not> t0 > t1"
    and "filter (\<lambda>x. x < 0) (swing_values 0 goals) = []"
  shows "calculate_excitement_factor exact_floats rp goals = Inr (of_int (min (t0 + t1) 5) * (6 / 5))"
  using assms by (simp add: calculate_excitement_factor_def exact_simps min_def)

subsection \<open>The uuid of a replay\<close>

lemma re_sub_uuid_no_match: "\<not> contains_match s \<Longrightarrow> re_sub_uuid s = s"
  by (induction s) (simp_all add: re_sub_uuid.simps)

lemma re_sub_uuid_exact:
  assumes "length s = 32" "list_all is_upper_hex s"
  shows "re_sub_uuid s = dashed s"
proof -
  have "s \<noteq> []" using assms by auto
  moreover have "matches_at s" using assms by (simp add: matches_at_def)
  moreover have "re_sub_uuid [] = []" by (simp add: re_sub_uuid.simps)
  ultimately show ?thesis using assms by (subst re_sub_uuid.simps) simp
qed

text \<open>
  Claim C10, as the code has it. For a replay id of 32 upper-case hexadecimal digits,
  \<^verbatim>\<open>uuid\<close> is the id in the dashed form 8-4-4-4-12, in lower case. An id in which the pattern
  matches nowhere (no 32 upper-case hexadecimal digits in a row) is returned in lower case
  and otherwise unchanged.
\<close>

theorem uuid_dashed_lowercase:
  assumes "replay_id rp = Some s"
  shows "(length s = 32 \<and> list_all is_upper_hex s \<longrightarrow>
            uuid rp = Inr (lower (take 8 s @ ''-'' @ take 4 (drop 8 s) @ ''-'' @ take 4 (drop 12 s)
                                   @ ''-'' @ take 4 (drop 16 s) @ ''-'' @ drop 20 s)))
       \<and> (\<not> contains_match s \<longrightarrow> uuid rp = Inr (lower s))"
  using assms by (auto simp: uuid_def re_sub_uuid_exact re_sub_uuid_no_match dashed_def)

lemma sample_uuid: "uuid sample_replay = Inr ''01234567-89ab-cdef-0123-456789abcdef''"
  by code_simp

lemma sample_id_shape:
  "replay_id sample_replay = Some ''0123456789ABCDEF0123456789ABCDEF''"
  "length ''0123456789ABCDEF0123456789ABCDEF'' = 32"
  "list_all is_upper_hex ''0123456789ABCDEF0123456789ABCDEF''"
  by (simp_all add: sample_replay_def is_upper_hex_def)

lemma lower_sample:
  "lower ''01234567-89AB-CDEF-0123-456789ABCDEF'' = ''01234567-89ab-cdef-0123-456789abcdef''"
  "lower ''Match-7'' = ''match-7''"
  "lower ''0123456789ABCDEF0123456789ABCDEF0'' = ''0123456789abcdef0123456789abcdef0''"
  by code_simp+

theorem uuid_dashed_lowercase_witness:
  "replay_id sample_replay = Some ''0123456789ABCDEF0123456789ABCDEF''
   \<and> length ''0123456789ABCDEF0123456789ABCDEF'' = 32
   \<and> list_all is_upper_hex ''0123456789ABCDEF0123456789ABCDEF''
   \<and> uuid sample_replay = Inr ''01234567-89ab-cdef-0123-456789abcdef''
   \<and> \<not> contains_match ''Match-7''
   \<and> uuid (sample_replay\<lparr>replay_id := Some ''Match-7''\<rparr>) = Inr ''match-7''"
  using uuid_dashed_lowercase [of sample_replay "''0123456789ABCDEF0123456789ABCDEF''"]
    uuid_dashed_lowercase [of "sample_replay\<lparr>replay_id := Some ''Match-7''\<rparr>" "''Match-7''"]
    sample_id_shape
  by (simp add: lower_sample matches_at_def)

text \<open>
  An id of 33 upper-case hexadecimal digits is not of the 32-character shape, and is not
  returned unchanged: the pattern is not anchored, so its first 32 characters are rewritten.
\<close>

theorem uuid_longer_id_counterexample:
  "replay_id long_id_replay = Some ''0123456789ABCDEF0123456789ABCDEF0''
   \<and> length ''0123456789ABCDEF0123456789ABCDEF0'' \<noteq> 32
   \<and> uuid long_id_replay = Inr ''01234567-89ab-cdef-0123-456789abcdef0''
   \<and> uuid long_id_replay \<noteq> Inr (lower ''0123456789ABCDEF0123456789ABCDEF0'')"
proof -
  have u: "uuid long_id_replay = Inr ''01234567-89ab-cdef-0123-456789abcdef0''"
    by code_simp
  show ?thesis
    by (simp add: u lower_sample) (simp add: long_id_replay_def)
qed

end
